theory Spec2Isabelle
  imports Main "HOL-Library.Finite_Map" "HOL-Library.Word"
begin

section \<open>Shared data\<close>

text \<open>
  A \<open>common.Hash\<close> is an array of 32 bytes; the code below only compares hashes and
  builds one from a byte slice.  A block header carries many fields; the functions
  modelled here read \<open>ParentHash\<close>, \<open>Number\<close> (a \<open>*big.Int\<close>, an unbounded
  integer), \<open>Time\<close> (a \<open>uint64\<close>) and \<open>Extra\<close> (the extension bytes).
\<close>

type_synonym byte = "8 word"
type_synonym hash = "byte list"

record header =
  ParentHash :: hash
  Number :: int
  Time :: "64 word"
  Extra :: "byte list"

text \<open>
  A Go panic.  \<open>Panic msg\<close> is an explicit \<open>panic(msg)\<close>; \<open>NilDereference\<close> is the
  run-time panic of calling a method on a nil interface value.
\<close>

datatype panic = Panic string | NilDereference


section \<open>The validator-set multiplexer (consensus/validatorset/multi.go)\<close>

text \<open>
  \<open>type Multi struct { sets map[int]ValidatorSet }\<close>.  A Go map is finite and has
  unique keys, so it is a finite map.  The values are interface values, which can be
  nil: a stored value is \<open>Some v\<close> for an implementation \<open>v\<close> and \<open>None\<close> for nil.
  The keys are Go \<open>int\<close>s; they are only compared and converted to \<open>int64\<close> and to
  \<open>big.Int\<close>, which loses nothing, so they are modelled as integers.  Block numbers
  and headers are passed as pointers; they are taken to be non-nil.
\<close>

record 'v Multi =
  sets :: "(int, 'v option) fmap"

definition NewMulti :: "(int, 'v option) fmap \<Rightarrow> 'v Multi" where
  "NewMulti setMap = \<lparr>sets = setMap\<rparr>"

text \<open>\<open>multi.sets[setNum]\<close>: indexing a Go map with a missing key gives the zero value, nil.\<close>

definition index_sets :: "(int, 'v option) fmap \<Rightarrow> int \<Rightarrow> 'v option" where
  "index_sets m k = (case fmlookup m k of None \<Rightarrow> None | Some v \<Rightarrow> v)"

text \<open>
  The keys are collected by ranging over the map (in no fixed order) and then sorted
  with \<open>sort.Slice\<close> under the comparison \<open>setNumbers[i] > setNumbers[j]\<close>.  The keys
  are distinct, so the outcome is the one strictly descending list of the keys.
\<close>

definition sortDescending :: "int set \<Rightarrow> int list" where
  "sortDescending keys = rev (sorted_list_of_set keys)"

text \<open>
  The loop
  \<^verbatim>\<open>setNum := 0
  for _, setNumber := range setNumbers {
      if blockNumber.Cmp(big.NewInt(int64(setNumber))) >= 0 { setNum = setNumber; break }
  }\<close>
  as a recursion over the remaining keys; \<open>setNum\<close> keeps its initial value 0 when the
  loop runs to its end.
\<close>

fun scanSetNumbers :: "int \<Rightarrow> int list \<Rightarrow> int" where
  "scanSetNumbers blockNumber [] = 0"
| "scanSetNumbers blockNumber (setNumber # rest) =
     (if blockNumber \<ge> setNumber then setNumber else scanSetNumbers blockNumber rest)"

definition correctSet :: "'v Multi \<Rightarrow> int \<Rightarrow> panic + ('v option \<times> int)" where
  "correctSet multi blockNumber =
     (if card (fmdom' (sets multi)) = 0
      then Inl (Panic ''constructor validation ensures that there is at least one validator set for block 0'')
      else (let setNumbers = sortDescending (fmdom' (sets multi));
                setNum = scanSetNumbers blockNumber setNumbers
            in Inr (index_sets (sets multi) setNum, setNum)))"

text \<open>
  The \<open>ValidatorSet\<close> interface, as far as \<open>Multi.SignalToChange\<close> uses it: an
  implementation is the record of its methods.  Receipts, the chain, the database and
  the result \<open>([]common.Address, bool, bool)\<close> are opaque here.
\<close>

record ('rc, 'ch, 'db, 'res) ValidatorSet =
  implSignalToChange :: "bool \<Rightarrow> 'rc \<Rightarrow> header \<Rightarrow> 'ch \<Rightarrow> 'db \<Rightarrow> 'res"

text \<open>
  \<open>Multi.SignalToChange\<close>: the parameter \<open>first\<close> is overwritten before it is
  forwarded.  A panic of \<open>correctSet\<close> propagates; calling the method on a nil
  validator set panics.
\<close>

definition SignalToChange ::
  "('rc, 'ch, 'db, 'res) ValidatorSet Multi \<Rightarrow> bool \<Rightarrow> 'rc \<Rightarrow> header \<Rightarrow> 'ch \<Rightarrow> 'db
     \<Rightarrow> panic + 'res" where
  "SignalToChange multi first receipts hdr chain chainDb =
     (case correctSet multi (Number hdr) of
        Inl p \<Rightarrow> Inl p
      | Inr (validator, setBlockNumber) \<Rightarrow>
          (let first = (setBlockNumber = Number hdr)
           in case validator of
                None \<Rightarrow> Inl NilDereference
              | Some v \<Rightarrow> Inr (implSignalToChange v first receipts hdr chain chainDb)))"

text \<open>
  The resolution as the specification words it: \<open>h\<close> is a registered activation height,
  it is at most the block number, and no registered height at most the block number is
  greater.
\<close>

definition isGreatestAtMost :: "int set \<Rightarrow> int \<Rightarrow> int \<Rightarrow> bool" where
  "isGreatestAtMost heights blockNumber h \<longleftrightarrow>
     h \<in> heights \<and> h \<le> blockNumber \<and> (\<forall>k\<in>heights. k \<le> blockNumber \<longrightarrow> k \<le> h)"

text \<open>Bindings used as concrete inputs: the heights 0, 100, 500 of the specification's
  example, and a map that registers height 100 only.\<close>

definition bindings3 :: "string Multi" where
  "bindings3 = NewMulti (fmupd 500 (Some ''set500'')
                  (fmupd 0 (Some ''set0'') (fmupd 100 (Some ''set100'') fmempty)))"

definition bindings100 :: "string Multi" where
  "bindings100 = NewMulti (fmupd 100 (Some ''set100'') fmempty)"

text \<open>A validator set whose \<open>SignalToChange\<close> reports the flag it was called with.\<close>

definition echoSet :: "(unit, unit, unit, bool) ValidatorSet" where
  "echoSet = \<lparr>implSignalToChange = (\<lambda>first receipts hdr chain chainDb. first)\<rparr>"

definition echoBindings :: "(unit, unit, unit, bool) ValidatorSet Multi" where
  "echoBindings = NewMulti (fmupd 0 (Some echoSet) (fmupd 100 (Some echoSet) fmempty))"


section \<open>The remote sealer API (package ethash, the methods of \<open>API\<close>)\<close>

text \<open>
  Go's \<open>error\<close> values: the three package-level errors of the file, and
  \<open>ErrorsNew msg\<close> for a value made by \<open>errors.New(msg)\<close>, here or in the sealer
  loop.
\<close>

datatype error =
    errEthashStopped
  | errInvalidParentHash
  | errInvalidBlockNumber
  | ErrorsNew string

text \<open>A work package is a \<open>[4]string\<close>; \<open>[4]string{}\<close> holds four empty strings.\<close>

type_synonym work = "string \<times> string \<times> string \<times> string"

definition emptyWork :: work where
  "emptyWork = ([], [], [], [])"

text \<open>
  How a call ends: it returns a value, it blocks for ever on a channel operation that
  never becomes ready, or it panics.
\<close>

datatype 'a outcome = Returns 'a | Blocks | Panics

text \<open>
  The first \<open>select\<close> of every method offers a send of the request to the sealer loop
  and a receive from \<open>exitCh\<close>.  It takes the send (\<open>SendCase\<close>), takes the receive
  from the closed \<open>exitCh\<close> (\<open>ExitCase\<close>), or waits for ever when the loop never takes
  the request and \<open>exitCh\<close> is never closed (\<open>NoCase\<close>).  Which ready case wins is
  Go's choice, so the case taken is part of the environment.
\<close>

datatype select_case = SendCase | ExitCase | NoCase

text \<open>The requests sent to the sealer loop, without their reply channels.\<close>

record mineResult =
  nonce :: "64 word"
  mixDigest :: hash
  hash :: hash
  blsSeal :: "byte list option"

record hashrate =
  id' :: hash
  rate :: "64 word"

text \<open>
  The \<open>remoteSealer\<close> as one call of the API sees it.  The sealer loop runs in its own
  goroutine and is not part of this file, so its behaviour on the channels is the
  environment of the call:
  \<^item> \<open>enqueue\<close>: the case the first \<open>select\<close> takes;
  \<^item> \<open>fetchReply\<close>: what the loop delivers for a fetch request, an error on \<open>errc\<close>
    or a work package on \<open>res\<close>, or nothing ever;
  \<^item> \<open>submitReply\<close>: the error value (nil is \<open>None\<close>) the loop delivers on \<open>errc\<close>
    for a submitted result, or nothing ever;
  \<^item> \<open>rateDone\<close>: whether the loop ever signals \<open>done\<close> for a hash rate;
  \<^item> \<open>exitWhileWaiting\<close>: whether \<open>exitCh\<close> is closed while the call waits for the
    loop's reply;
  \<^item> \<open>currentHeader\<close>: the value of \<open>currentBlock.Header()\<close>, nil being \<open>None\<close>.
\<close>

record remoteSealer =
  enqueue :: select_case
  fetchReply :: "(error + work) option"
  submitReply :: "mineResult \<Rightarrow> error option option"
  rateDone :: "hashrate \<Rightarrow> bool"
  exitWhileWaiting :: bool
  currentHeader :: "header option"

record Ethash =
  remote :: "remoteSealer option"

record API =
  ethash :: Ethash

text \<open>\<open>big.Int.Uint64\<close>: the low 64 bits of the magnitude.\<close>

definition Uint64 :: "int \<Rightarrow> 64 word" where
  "Uint64 x = word_of_int \<bar>x\<bar>"

text \<open>
  \<open>GetWork\<close> returns \<open>([4]string, error)\<close>, modelled as a pair whose second component
  is \<open>None\<close> for a nil error.
\<close>

definition GetWork :: "API \<Rightarrow> (work \<times> error option) outcome" where
  "GetWork api =
     (case remote (ethash api) of
        None \<Rightarrow> Returns (emptyWork, Some (ErrorsNew ''not supported''))
      | Some r \<Rightarrow>
          (case enqueue r of
             ExitCase \<Rightarrow> Returns (emptyWork, Some errEthashStopped)
           | NoCase \<Rightarrow> Blocks
           | SendCase \<Rightarrow>
               (case fetchReply r of
                  None \<Rightarrow> Blocks
                | Some (Inr work) \<Rightarrow> Returns (work, None)
                | Some (Inl err) \<Rightarrow> Returns (emptyWork, Some err))))"

definition GetShardingWork :: "API \<Rightarrow> hash \<Rightarrow> 64 word \<Rightarrow> (work \<times> error option) outcome" where
  "GetShardingWork api parentHash blockNumber =
     (let emptyRes = emptyWork in
      case remote (ethash api) of
        None \<Rightarrow> Returns (emptyWork, Some (ErrorsNew ''not supported''))
      | Some r \<Rightarrow>
          (case enqueue r of
             ExitCase \<Rightarrow> Returns (emptyRes, Some errEthashStopped)
           | NoCase \<Rightarrow> Blocks
           | SendCase \<Rightarrow>
               (case fetchReply r of
                  None \<Rightarrow> Blocks
                | Some (Inr work) \<Rightarrow>
                    (case currentHeader r of
                       None \<Rightarrow> Returns (work, None)
                     | Some curBlockHeader \<Rightarrow>
                         if blockNumber = 1 then Returns (work, None)
                         else if ParentHash curBlockHeader \<noteq> parentHash
                           then Returns (emptyRes, Some errInvalidParentHash)
                         else if Uint64 (Number curBlockHeader) \<noteq> blockNumber
                           then Returns (emptyRes, Some errInvalidBlockNumber)
                         else Returns (work, None))
                | Some (Inl err) \<Rightarrow> Returns (emptyRes, Some err))))"

definition SubmitWork :: "API \<Rightarrow> 64 word \<Rightarrow> hash \<Rightarrow> hash \<Rightarrow> bool outcome" where
  "SubmitWork api nonce hash digest =
     (case remote (ethash api) of
        None \<Rightarrow> Returns False
      | Some r \<Rightarrow>
          (let blsSignature = None in
           case enqueue r of
             ExitCase \<Rightarrow> Returns False
           | NoCase \<Rightarrow> Blocks
           | SendCase \<Rightarrow>
               (case submitReply r \<lparr>nonce = nonce, mixDigest = digest, hash = hash,
                                     blsSeal = blsSignature\<rparr> of
                  None \<Rightarrow> Blocks
                | Some err \<Rightarrow> Returns (err = None))))"
  for nonce hash digest

text \<open>
  \<open>copy(dst, src)\<close> overwrites the first \<open>min(len(dst), len(src))\<close> bytes of \<open>dst\<close>.
  \<open>common.BytesToHash\<close> keeps the last 32 bytes of a longer slice and right-aligns a
  shorter one in a zeroed hash.
\<close>

definition copy :: "byte list \<Rightarrow> byte list \<Rightarrow> byte list" where
  "copy dst src = take (length dst) src @ drop (length src) dst"

definition BytesToHash :: "byte list \<Rightarrow> hash" where
  "BytesToHash b =
     (let b = (if length b > 32 then drop (length b - 32) b else b)
      in replicate (32 - length b) 0 @ b)"

text \<open>
  \<open>SubmitWorkBLS\<close> uses two things that are declared in other files and are taken as
  parameters: \<open>MustDecode\<close>, the function \<open>hexutil.MustDecode\<close>, which gives the decoded
  bytes or panics (\<open>None\<close>), and \<open>blsLen\<close>, the length of the array type
  \<open>BlsSignatureBytes\<close>.
\<close>

definition SubmitWorkBLS ::
  "(string \<Rightarrow> byte list option) \<Rightarrow> nat \<Rightarrow> API \<Rightarrow> 64 word \<Rightarrow> hash \<Rightarrow> string \<Rightarrow> bool outcome" where
  "SubmitWorkBLS MustDecode blsLen api nonce hash hexSignatureString =
     (case remote (ethash api) of
        None \<Rightarrow> Returns False
      | Some r \<Rightarrow>
          (case MustDecode hexSignatureString of
             None \<Rightarrow> Panics
           | Some signatureBytes \<Rightarrow>
               (let blsSignatureBytes = copy (replicate blsLen 0) signatureBytes in
                case enqueue r of
                  ExitCase \<Rightarrow> Returns False
                | NoCase \<Rightarrow> Blocks
                | SendCase \<Rightarrow>
                    (case submitReply r
                            \<lparr>nonce = nonce,
                             mixDigest = BytesToHash (take 32 blsSignatureBytes),
                             hash = hash,
                             blsSeal = Some blsSignatureBytes\<rparr> of
                       None \<Rightarrow> Blocks
                     | Some err \<Rightarrow> Returns (err = None)))))"
  for nonce hash

definition SubmitHashRate :: "API \<Rightarrow> 64 word \<Rightarrow> hash \<Rightarrow> bool outcome" where
  "SubmitHashRate api rate id =
     (case remote (ethash api) of
        None \<Rightarrow> Returns False
      | Some r \<Rightarrow>
          (case enqueue r of
             ExitCase \<Rightarrow> Returns False
           | NoCase \<Rightarrow> Blocks
           | SendCase \<Rightarrow>
               (if rateDone r \<lparr>id' = id, rate = rate\<rparr> then Returns True else Blocks)))"
  for rate id

text \<open>
  An instance of the decoder for concrete inputs, after go-ethereum's common/hexutil:
  the input must be non-empty, start with \<open>0x\<close> or \<open>0X\<close>, and continue with an even
  number of hexadecimal digits; \<open>MustDecode\<close> panics on anything else.
\<close>

definition fromHexChar :: "char \<Rightarrow> byte option" where
  "fromHexChar c =
     (let n = (of_char c :: nat) in
      if 48 \<le> n \<and> n \<le> 57 then Some (of_nat (n - 48))
      else if 97 \<le> n \<and> n \<le> 102 then Some (of_nat (n - 87))
      else if 65 \<le> n \<and> n \<le> 70 then Some (of_nat (n - 55))
      else None)"

fun hexDecodeString :: "string \<Rightarrow> byte list option" where
  "hexDecodeString [] = Some []"
| "hexDecodeString [c] = None"
| "hexDecodeString (a # b # cs) =
     (case (fromHexChar a, fromHexChar b, hexDecodeString cs) of
        (Some x, Some y, Some rest) \<Rightarrow> Some ((x * 16 + y) # rest)
      | _ \<Rightarrow> None)"

definition has0xPrefix :: "string \<Rightarrow> bool" where
  "has0xPrefix input \<longleftrightarrow>
     length input \<ge> 2 \<and> input ! 0 = CHR ''0'' \<and> (input ! 1 = CHR ''x'' \<or> input ! 1 = CHR ''X'')"

definition hexutilMustDecode :: "string \<Rightarrow> byte list option" where
  "hexutilMustDecode input =
     (if length input = 0 then None
      else if \<not> has0xPrefix input then None
      else hexDecodeString (drop 2 input))"

text \<open>
  What the sealer loop reports for a submitted result, in the words of the
  specification: nothing (\<open>None\<close>) when remote mining is disabled or the request is not
  taken by the loop, otherwise the loop's reply.
\<close>

definition sealerReports :: "API \<Rightarrow> mineResult \<Rightarrow> error option option" where
  "sealerReports api req =
     (case remote (ethash api) of
        None \<Rightarrow> None
      | Some r \<Rightarrow> (if enqueue r = SendCase then submitReply r req else None))"

text \<open>Environments used as concrete inputs.\<close>

definition header7 :: header where
  "header7 = \<lparr>ParentHash = replicate 32 1, Number = 7, Time = 0, Extra = []\<rparr>"

definition work7 :: work where
  "work7 = (''0xaa'', ''0xbb'', ''0xcc'', ''0x07'')"

text \<open>A loop that takes every request and answers it: a work package for a fetch, a
  nil error for a submitted result, an acknowledgement for a hash rate.\<close>

definition servingSealer :: remoteSealer where
  "servingSealer =
     \<lparr>enqueue = SendCase, fetchReply = Some (Inr work7),
      submitReply = (\<lambda>req. Some None), rateDone = (\<lambda>r. True),
      exitWhileWaiting = False, currentHeader = Some header7\<rparr>"

definition apiOf :: "remoteSealer \<Rightarrow> API" where
  "apiOf r = \<lparr>ethash = \<lparr>remote = Some r\<rparr>\<rparr>"

definition apiDisabled :: API where
  "apiDisabled = \<lparr>ethash = \<lparr>remote = None\<rparr>\<rparr>"


text \<open>The requests the two submission methods build, named for the statements below.\<close>

definition workRequest :: "64 word \<Rightarrow> hash \<Rightarrow> hash \<Rightarrow> mineResult" where
  "workRequest n h d = \<lparr>nonce = n, mixDigest = d, hash = h, blsSeal = None\<rparr>"

definition blsRequest :: "nat \<Rightarrow> 64 word \<Rightarrow> hash \<Rightarrow> byte list \<Rightarrow> mineResult" where
  "blsRequest blsLen n h signatureBytes =
     (let blsSignatureBytes = copy (replicate blsLen 0) signatureBytes
      in \<lparr>nonce = n, mixDigest = BytesToHash (take 32 blsSignatureBytes), hash = h,
          blsSeal = Some blsSignatureBytes\<rparr>)"

text \<open>A loop that answers every fetch and every submitted result with an error.\<close>

definition refusingSealer :: remoteSealer where
  "refusingSealer =
     servingSealer\<lparr>fetchReply := Some (Inl (ErrorsNew ''no work'')),
                    submitReply := (\<lambda>req. Some (Some (ErrorsNew ''invalid seal'')))\<rparr>"

text \<open>A sealer whose \<open>exitCh\<close> is closed before the request is taken.\<close>

definition stoppedSealer :: remoteSealer where
  "stoppedSealer = servingSealer\<lparr>enqueue := ExitCase\<rparr>"

text \<open>A loop that takes the hash rate and never acknowledges it, while \<open>exitCh\<close> is
  closed during the wait.\<close>

definition silentSealer :: remoteSealer where
  "silentSealer = servingSealer\<lparr>rateDone := (\<lambda>r. False), exitWhileWaiting := True\<rparr>"


section \<open>Epoch start times and seal verification (pandora mode of consensus/ethash)\<close>

text \<open>
  The epoch record \<open>MinimalEpochConsensusInfo\<close> with the fields the tests read and
  write.  Times are Unix times in seconds, as the tests compare them.
\<close>

record 'pk MinimalEpochConsensusInfo =
  Epoch :: nat
  ValidatorsList :: "'pk list"
  EpochTimeStart :: int
  SlotTimeDuration :: nat




text \<open>The decoded consensus metadata of a sealed header: slot, epoch, turn and the
  signature.\<close>

record 'sg SlotSeal =
  slot :: nat
  epoch :: nat
  turn :: nat
  signature :: 'sg

datatype verifyError =
    MalformedSeal
  | TurnOutOfRange
  | EpochNotFound
  | InvalidSignature string
  | StaleOrFutureSlot

text \<open>
  The collaborators of seal verification, whose sources are missing: the seal codec,
  the epoch store, the two header hashes with their printed form, the BLS check with the
  printed form of a signature, and the timing policy.
\<close>

record ('pk, 'sg) collaborators =
  decodeSeal :: "byte list \<Rightarrow> 'sg SlotSeal option"
  resolveEpoch :: "64 word \<Rightarrow> 'pk MinimalEpochConsensusInfo option"
  sealHash :: "header \<Rightarrow> hash"
  headerHash :: "header \<Rightarrow> hash"
  hashString :: "hash \<Rightarrow> string"
  blsVerify :: "'pk \<Rightarrow> hash \<Rightarrow> 'sg \<Rightarrow> bool"
  marshalString :: "'sg \<Rightarrow> string"
  withinSlotWindow :: "'pk MinimalEpochConsensusInfo \<Rightarrow> 'sg SlotSeal \<Rightarrow> 64 word \<Rightarrow> bool"

text \<open>
  The error \<open>TestVerifySeal\<close> expects from \<open>verifySeal\<close> for a header sealed by a key
  that is not the validator's:
  \<^verbatim>\<open>fmt.Errorf("invalid signature: %s in header hash: %s with sealHash: %s",
      blsSignature.Marshal(), header.Hash().String(), sealHash.String())\<close>
\<close>

definition invalidSignatureMessage :: "string \<Rightarrow> string \<Rightarrow> string \<Rightarrow> string" where
  "invalidSignatureMessage signatureString headerHashString sealHashString =
     ''invalid signature: '' @ signatureString @ '' in header hash: '' @ headerHashString
       @ '' with sealHash: '' @ sealHashString"

text \<open>
  Modelled from the spec: the source of \<open>verifySeal\<close> is missing, only its test is
  at hand.  Section 4.3, steps 1 to 7: decode the extension (\<open>MalformedSeal\<close>); the turn must be below
  the validator-set size N (\<open>TurnOutOfRange\<close>); resolve the epoch for the header's
  time (\<open>EpochNotFound\<close>); the expected signer is the validator at index \<open>turn\<close>;
  recompute the seal-hash; verify the embedded signature against the expected
  signer's key and the seal-hash (\<open>InvalidSignature\<close>); check the slot window
  (\<open>StaleOrFutureSlot\<close>).  The text of the invalid-signature error is the one
  \<open>TestVerifySeal\<close> compares with.  A validator list too short for the turn, which the data
  model excludes, is answered like a turn out of range.
\<close>

definition verifySeal :: "('pk, 'sg) collaborators \<Rightarrow> nat \<Rightarrow> header \<Rightarrow> verifyError + unit" where
  "verifySeal c N hdr =
     (case decodeSeal c (Extra hdr) of
        None \<Rightarrow> Inl MalformedSeal
      | Some seal \<Rightarrow>
          if \<not> turn seal < N then Inl TurnOutOfRange
          else
            (case resolveEpoch c (Time hdr) of
               None \<Rightarrow> Inl EpochNotFound
             | Some info \<Rightarrow>
                 if \<not> turn seal < length (ValidatorsList info) then Inl TurnOutOfRange
                 else
                   (let signer = ValidatorsList info ! turn seal;
                        sealHashOfHeader = sealHash c hdr
                    in if \<not> blsVerify c signer sealHashOfHeader (signature seal)
                       then Inl (InvalidSignature
                                  (invalidSignatureMessage
                                     (marshalString c (signature seal))
                                     (hashString c (headerHash c hdr))
                                     (hashString c sealHashOfHeader)))
                       else if \<not> withinSlotWindow c info seal (Time hdr)
                         then Inl StaleOrFutureSlot
                       else Inr ())))"

text \<open>
  Collaborators for concrete inputs.  A public key is one byte and so is a signing
  key; a signature is the pair of the signing key and the signed hash and verifies
  under that key and for that hash only.  The extension holds slot, epoch, turn, the
  signing key and the signed hash, one byte each but for the hash.
\<close>

definition hexString :: "byte list \<Rightarrow> string" where
  "hexString bs =
     ''0x'' @ concat (map (\<lambda>b. [''0123456789abcdef'' ! (unat b div 16),
                                  ''0123456789abcdef'' ! (unat b mod 16)]) bs)"

definition sampleSign :: "byte \<Rightarrow> hash \<Rightarrow> byte \<times> hash" where
  "sampleSign key message = (key, message)"

definition samplePublicKey :: "byte \<Rightarrow> byte" where
  "samplePublicKey key = key"

fun sampleDecodeSeal :: "byte list \<Rightarrow> (byte \<times> hash) SlotSeal option" where
  "sampleDecodeSeal (s # e # t # key # message) =
     Some \<lparr>slot = unat s, epoch = unat e, turn = unat t, signature = (key, message)\<rparr>"
| "sampleDecodeSeal bs = None"

definition sampleCollaborators :: "byte list \<Rightarrow> (byte, byte \<times> hash) collaborators" where
  "sampleCollaborators validatorKeys =
     \<lparr>decodeSeal = sampleDecodeSeal,
      resolveEpoch = (\<lambda>t. Some \<lparr>Epoch = 0, ValidatorsList = validatorKeys,
                                 EpochTimeStart = 0, SlotTimeDuration = 6\<rparr>),
      sealHash = ParentHash,
      headerHash = (\<lambda>hdr. rev (ParentHash hdr)),
      hashString = hexString,
      blsVerify = (\<lambda>pk message sg. sg = (pk, message)),
      marshalString = (\<lambda>sg. hexString (fst sg # snd sg)),
      withinSlotWindow = (\<lambda>info seal t. True)\<rparr>"

text \<open>A header whose seal is made with key 9 over the header's seal-hash, for turn 0.\<close>

definition sealedBy9 :: header where
  "sealedBy9 = \<lparr>ParentHash = [1, 2], Number = 0, Time = 3, Extra = [0, 0, 0, 9, 1, 2]\<rparr>"


section \<open>Properties of the multiplexer\<close>

lemma set_sortDescending: "finite keys \<Longrightarrow> set (sortDescending keys) = keys"
  by (simp add: sortDescending_def)

lemma sorted_sortDescending: "sorted (rev (sortDescending keys))"
  by (simp add: sortDescending_def)

lemma scanSetNumbers_none:
  "\<forall>k\<in>set ks. blockNumber < k \<Longrightarrow> scanSetNumbers blockNumber ks = 0"
  by (induction ks) auto

lemma scanSetNumbers_greatest:
  assumes "sorted (rev ks)" and "\<exists>k\<in>set ks. k \<le> blockNumber"
  shows "isGreatestAtMost (set ks) blockNumber (scanSetNumbers blockNumber ks)"
  using assms
proof (induction ks)
  case Nil
  then show ?case by simp
next
  case (Cons a ks)
  have above: "\<forall>k\<in>set ks. k \<le> a"
    using Cons.prems(1) by (auto simp: sorted_append)
  show ?case
  proof (cases "a \<le> blockNumber")
    case True
    then show ?thesis
      using above by (auto simp: isGreatestAtMost_def)
  next
    case False
    have "sorted (rev ks)"
      using Cons.prems(1) by (simp add: sorted_append)
    moreover have "\<exists>k\<in>set ks. k \<le> blockNumber"
      using Cons.prems(2) False by auto
    ultimately have "isGreatestAtMost (set ks) blockNumber (scanSetNumbers blockNumber ks)"
      by (rule Cons.IH)
    then show ?thesis
      using False by (auto simp: isGreatestAtMost_def)
  qed
qed

lemma correctSet_panics_iff:
  "isl (correctSet multi blockNumber) \<longleftrightarrow> fmdom' (sets multi) = {}"
  by (simp add: correctSet_def Let_def)

lemma correctSet_nonempty:
  "fmdom' (sets multi) \<noteq> {} \<Longrightarrow>
   correctSet multi blockNumber =
     (let setNum = scanSetNumbers blockNumber (sortDescending (fmdom' (sets multi)))
      in Inr (index_sets (sets multi) setNum, setNum))"
  by (simp add: correctSet_def Let_def)

subsection \<open>Resolution by block height\<close>

text \<open>
  C2 (as amended).  \<open>correctSet\<close> panics exactly when the binding map is empty.
  Whenever some registered activation height is at most the queried block number, it
  returns the binding stored at the greatest such height, together with that height.
\<close>

theorem correctSet_greatest_registered_height:
  "(isl (correctSet multi blockNumber) \<longleftrightarrow> fmdom' (sets multi) = {}) \<and>
   ((\<exists>k\<in>fmdom' (sets multi). k \<le> blockNumber) \<longrightarrow>
      (\<exists>h. isGreatestAtMost (fmdom' (sets multi)) blockNumber h \<and>
           correctSet multi blockNumber = Inr (index_sets (sets multi) h, h)))"
proof (intro conjI impI)
  show "isl (correctSet multi blockNumber) \<longleftrightarrow> fmdom' (sets multi) = {}"
    by (rule correctSet_panics_iff)
next
  let ?keys = "fmdom' (sets multi)"
  let ?h = "scanSetNumbers blockNumber (sortDescending ?keys)"
  assume ex: "\<exists>k\<in>?keys. k \<le> blockNumber"
  then have nonempty: "?keys \<noteq> {}" by auto
  have "isGreatestAtMost (set (sortDescending ?keys)) blockNumber ?h"
    using ex by (intro scanSetNumbers_greatest sorted_sortDescending)
                (simp add: set_sortDescending)
  then have "isGreatestAtMost ?keys blockNumber ?h"
    by (simp add: set_sortDescending)
  moreover have "correctSet multi blockNumber = Inr (index_sets (sets multi) ?h, ?h)"
    using correctSet_nonempty [OF nonempty] by (simp add: Let_def)
  ultimately show "\<exists>h. isGreatestAtMost ?keys blockNumber h \<and>
      correctSet multi blockNumber = Inr (index_sets (sets multi) h, h)"
    by blast
qed

text \<open>The specification's example: with heights 0, 100 and 500 registered, the blocks
  0 and 99 resolve to height 0, the blocks 500 and 10000 to height 500.\<close>

theorem correctSet_greatest_registered_height_witness:
  "(\<exists>k\<in>fmdom' (sets bindings3). k \<le> 99) \<and>
   (\<exists>h. isGreatestAtMost (fmdom' (sets bindings3)) 99 h \<and>
        correctSet bindings3 99 = Inr (index_sets (sets bindings3) h, h)) \<and>
   correctSet bindings3 0 = Inr (Some ''set0'', 0) \<and>
   correctSet bindings3 99 = Inr (Some ''set0'', 0) \<and>
   correctSet bindings3 500 = Inr (Some ''set500'', 500) \<and>
   correctSet bindings3 10000 = Inr (Some ''set500'', 500)"
  using correctSet_greatest_registered_height [of bindings3 99]
  by (simp add: bindings3_def NewMulti_def correctSet_def sortDescending_def index_sets_def)

text \<open>
  C2 as stated fails: with height 100 alone registered, the map is not empty, block 50
  is resolved without a panic, and the answer is the nil binding at height 0, which is
  not a registered height.
\<close>

theorem correctSet_not_always_registered_height:
  "fmdom' (sets bindings100) \<noteq> {} \<and>
   correctSet bindings100 50 = Inr (None, 0) \<and>
   \<not> isGreatestAtMost (fmdom' (sets bindings100)) 50 0"
  by (simp add: bindings100_def NewMulti_def correctSet_def sortDescending_def
        index_sets_def isGreatestAtMost_def)

text \<open>
  C10.  When the binding map is not empty and every registered activation height is
  above the queried block number, \<open>correctSet\<close> does not panic: it answers with height 0
  and with whatever the map holds under key 0, which is nil when no height 0 is
  registered.  The panic is reached for the empty map only.
\<close>

theorem correctSet_falls_back_to_zero:
  "(isl (correctSet multi blockNumber) \<longleftrightarrow> fmdom' (sets multi) = {}) \<and>
   (fmdom' (sets multi) \<noteq> {} \<and> (\<forall>k\<in>fmdom' (sets multi). blockNumber < k) \<longrightarrow>
      correctSet multi blockNumber = Inr (index_sets (sets multi) 0, 0) \<and>
      (0 \<notin> fmdom' (sets multi) \<longrightarrow> index_sets (sets multi) 0 = None))"
proof (intro conjI impI)
  show "isl (correctSet multi blockNumber) \<longleftrightarrow> fmdom' (sets multi) = {}"
    by (rule correctSet_panics_iff)
next
  assume h: "fmdom' (sets multi) \<noteq> {} \<and> (\<forall>k\<in>fmdom' (sets multi). blockNumber < k)"
  then have "scanSetNumbers blockNumber (sortDescending (fmdom' (sets multi))) = 0"
    by (intro scanSetNumbers_none) (simp add: set_sortDescending)
  then show "correctSet multi blockNumber = Inr (index_sets (sets multi) 0, 0)"
    using h correctSet_nonempty [of multi blockNumber] by (simp add: Let_def)
next
  assume "0 \<notin> fmdom' (sets multi)"
  then show "index_sets (sets multi) 0 = None"
    by (simp add: index_sets_def fmdom'_notD)
qed

text \<open>Height 100 alone and block 7: the nil binding at height 0.  Heights 0, 100, 500
  and the block number -1: the binding registered at height 0.\<close>

theorem correctSet_falls_back_to_zero_witness:
  "fmdom' (sets bindings100) = {100} \<and> (7::int) < 100 \<and>
   correctSet bindings100 7 = Inr (None, 0) \<and>
   fmdom' (sets bindings3) = {500, 0, 100} \<and> (- 1::int) < 0 \<and>
   correctSet bindings3 (- 1) = Inr (Some ''set0'', 0)"
  using correctSet_falls_back_to_zero [of bindings100 7]
        correctSet_falls_back_to_zero [of bindings3 "- 1"]
  by (simp add: bindings100_def bindings3_def NewMulti_def index_sets_def)

subsection \<open>The first-block flag\<close>

text \<open>
  C4.  Whatever flag the caller passes, \<open>SignalToChange\<close> calls the resolved validator
  set with the flag "the header's number equals the resolved activation height".
\<close>

theorem SignalToChange_recomputes_first:
  "correctSet multi (Number hdr) = Inr (Some v, h) \<Longrightarrow>
   SignalToChange multi first receipts hdr chain chainDb =
     Inr (implSignalToChange v (h = Number hdr) receipts hdr chain chainDb)"
  by (simp add: SignalToChange_def)

text \<open>With echoing validator sets at heights 0 and 100: the header of block 100 is
  signalled as a first block although the caller says no, the header of block 101 is
  not although the caller says yes.\<close>

theorem SignalToChange_recomputes_first_witness:
  "correctSet echoBindings (Number \<lparr>ParentHash = [], Number = 100, Time = 0, Extra = []\<rparr>)
     = Inr (Some echoSet, 100) \<and>
   SignalToChange echoBindings False () \<lparr>ParentHash = [], Number = 100, Time = 0, Extra = []\<rparr> () ()
     = Inr True \<and>
   correctSet echoBindings (Number \<lparr>ParentHash = [], Number = 101, Time = 0, Extra = []\<rparr>)
     = Inr (Some echoSet, 100) \<and>
   SignalToChange echoBindings True () \<lparr>ParentHash = [], Number = 101, Time = 0, Extra = []\<rparr> () ()
     = Inr False"
proof -
  have c100: "correctSet echoBindings (Number \<lparr>ParentHash = [], Number = 100, Time = 0, Extra = []\<rparr>)
      = Inr (Some echoSet, 100)"
    by (simp add: echoBindings_def NewMulti_def correctSet_def sortDescending_def
          index_sets_def)
  have c101: "correctSet echoBindings (Number \<lparr>ParentHash = [], Number = 101, Time = 0, Extra = []\<rparr>)
      = Inr (Some echoSet, 100)"
    by (simp add: echoBindings_def NewMulti_def correctSet_def sortDescending_def
          index_sets_def)
  show ?thesis
    using c100 c101
      SignalToChange_recomputes_first [OF c100, of False "()" "()" "()"]
      SignalToChange_recomputes_first [OF c101, of True "()" "()" "()"]
    by (simp add: echoSet_def)
qed

section \<open>Properties of the remote sealer API\<close>

lemma apiOf_remote: "remote (ethash (apiOf r)) = Some r"
  by (simp add: apiOf_def)

subsection \<open>Fetching work\<close>

text \<open>
  C6 (as amended).  \<open>GetWork\<close> fails with "not supported" when the remote sealer is nil
  and with \<open>errEthashStopped\<close> when the first \<open>select\<close> takes \<open>exitCh\<close>.  Once the
  request is taken by the sealer loop, it returns what the loop replies: the work
  package with a nil error, or the loop's error with an empty package.
\<close>

theorem GetWork_results:
  "(remote (ethash api) = None \<longrightarrow>
      GetWork api = Returns (emptyWork, Some (ErrorsNew ''not supported''))) \<and>
   (\<forall>r. remote (ethash api) = Some r \<longrightarrow>
      (enqueue r = ExitCase \<longrightarrow> GetWork api = Returns (emptyWork, Some errEthashStopped)) \<and>
      (enqueue r = SendCase \<longrightarrow>
         (\<forall>w. fetchReply r = Some (Inr w) \<longrightarrow> GetWork api = Returns (w, None)) \<and>
         (\<forall>e. fetchReply r = Some (Inl e) \<longrightarrow> GetWork api = Returns (emptyWork, Some e))))"
  by (simp add: GetWork_def)

theorem GetWork_results_witness:
  "GetWork apiDisabled = Returns (emptyWork, Some (ErrorsNew ''not supported'')) \<and>
   GetWork (apiOf stoppedSealer) = Returns (emptyWork, Some errEthashStopped) \<and>
   GetWork (apiOf servingSealer) = Returns (work7, None) \<and>
   GetWork (apiOf refusingSealer) = Returns (emptyWork, Some (ErrorsNew ''no work''))"
  using GetWork_results [of apiDisabled] GetWork_results [of "apiOf stoppedSealer"]
    GetWork_results [of "apiOf servingSealer"] GetWork_results [of "apiOf refusingSealer"]
  by (simp add: apiDisabled_def apiOf_def stoppedSealer_def servingSealer_def
        refusingSealer_def work7_def)

text \<open>
  C6 as stated fails: remote mining is enabled, the request is taken by the loop and
  no shutdown occurs, yet the call returns no work package but the loop's error.
\<close>

theorem GetWork_passes_on_sealer_error:
  "remote (ethash (apiOf refusingSealer)) = Some refusingSealer \<and>
   enqueue refusingSealer = SendCase \<and>
   GetWork (apiOf refusingSealer) = Returns (emptyWork, Some (ErrorsNew ''no work''))"
  by (simp add: GetWork_def apiOf_def refusingSealer_def servingSealer_def)

subsection \<open>Fetching work with a lineage check\<close>

text \<open>
  C3 (as amended).  Let the sealer loop have delivered a work package and let the
  current block have a header.  For block number 1 \<open>GetShardingWork\<close> returns the
  package whatever the parent hashes are; for any other block number (in particular
  one greater than 1) it fails with \<open>errInvalidParentHash\<close> when the header's parent
  hash differs from the given one, and with \<open>errInvalidBlockNumber\<close> when the parent
  hashes agree and the header's number, read with \<open>Uint64\<close>, differs from the given
  one.
\<close>

theorem GetShardingWork_lineage:
  assumes "remote (ethash api) = Some r"
    and "enqueue r = SendCase"
    and "fetchReply r = Some (Inr w)"
    and "currentHeader r = Some curBlockHeader"
  shows "(blockNumber = 1 \<longrightarrow> GetShardingWork api parentHash blockNumber = Returns (w, None)) \<and>
         (blockNumber \<noteq> 1 \<and> ParentHash curBlockHeader \<noteq> parentHash \<longrightarrow>
            GetShardingWork api parentHash blockNumber
              = Returns (emptyWork, Some errInvalidParentHash)) \<and>
         (blockNumber \<noteq> 1 \<and> ParentHash curBlockHeader = parentHash \<and>
          Uint64 (Number curBlockHeader) \<noteq> blockNumber \<longrightarrow>
            GetShardingWork api parentHash blockNumber
              = Returns (emptyWork, Some errInvalidBlockNumber))"
  using assms by (simp add: GetShardingWork_def)

text \<open>The current header is block 7 with parent hash 01...01.\<close>

theorem GetShardingWork_lineage_witness:
  "remote (ethash (apiOf servingSealer)) = Some servingSealer \<and>
   enqueue servingSealer = SendCase \<and>
   fetchReply servingSealer = Some (Inr work7) \<and>
   currentHeader servingSealer = Some header7 \<and>
   ParentHash header7 \<noteq> replicate 32 2 \<and>
   GetShardingWork (apiOf servingSealer) (replicate 32 2) 1 = Returns (work7, None) \<and>
   GetShardingWork (apiOf servingSealer) (replicate 32 2) 7
     = Returns (emptyWork, Some errInvalidParentHash) \<and>
   ParentHash header7 = replicate 32 1 \<and> Uint64 (Number header7) \<noteq> 8 \<and>
   GetShardingWork (apiOf servingSealer) (replicate 32 1) 8
     = Returns (emptyWork, Some errInvalidBlockNumber)"
proof -
  have a: "remote (ethash (apiOf servingSealer)) = Some servingSealer"
    by (rule apiOf_remote)
  have b: "enqueue servingSealer = SendCase"
    and c: "fetchReply servingSealer = Some (Inr work7)"
    and d: "currentHeader servingSealer = Some header7"
    by (simp_all add: servingSealer_def)
  show ?thesis
    using a b c d
      GetShardingWork_lineage [OF a b c d, of 1 "replicate 32 2"]
      GetShardingWork_lineage [OF a b c d, of 7 "replicate 32 2"]
      GetShardingWork_lineage [OF a b c d, of 8 "replicate 32 1"]
    by (simp add: header7_def Uint64_def)
qed

text \<open>
  C3 as stated fails in its last part: for block number 1 the parent hashes agree, the
  current header is block 7 and not block 1, and the call still returns the package
  instead of failing with \<open>errInvalidBlockNumber\<close>.
\<close>

theorem GetShardingWork_block_one_number_mismatch:
  "remote (ethash (apiOf servingSealer)) = Some servingSealer \<and>
   enqueue servingSealer = SendCase \<and>
   fetchReply servingSealer = Some (Inr work7) \<and>
   currentHeader servingSealer = Some header7 \<and>
   ParentHash header7 = replicate 32 1 \<and>
   Uint64 (Number header7) = 7 \<and>
   GetShardingWork (apiOf servingSealer) (replicate 32 1) 1 = Returns (work7, None)"
  by (simp add: GetShardingWork_def apiOf_def servingSealer_def header7_def Uint64_def)



subsection \<open>Submitting a seal\<close>

lemma SubmitWork_cases:
  "SubmitWork api n h d =
     (case sealerReports api (workRequest n h d) of
        None \<Rightarrow> (case remote (ethash api) of
                   None \<Rightarrow> Returns False
                 | Some r \<Rightarrow> (if enqueue r = ExitCase then Returns False else Blocks))
      | Some err \<Rightarrow> Returns (err = None))"
  by (simp add: SubmitWork_def sealerReports_def workRequest_def
      split: option.split select_case.split)

lemma SubmitWorkBLS_cases:
  "SubmitWorkBLS MustDecode blsLen api n h s =
     (case remote (ethash api) of
        None \<Rightarrow> Returns False
      | Some r \<Rightarrow>
          (case MustDecode s of
             None \<Rightarrow> Panics
           | Some signatureBytes \<Rightarrow>
               (case sealerReports api (blsRequest blsLen n h signatureBytes) of
                  None \<Rightarrow> (if enqueue r = ExitCase then Returns False else Blocks)
                | Some err \<Rightarrow> Returns (err = None))))"
  by (simp add: SubmitWorkBLS_def sealerReports_def blsRequest_def Let_def
      split: option.split select_case.split)

text \<open>
  What the two submission methods do for every input.  \<open>SubmitWork\<close> never panics; it
  returns true exactly when the sealer loop reports a nil error for the request, and
  false for every error the loop reports, whichever it is.  \<open>SubmitWorkBLS\<close> does the
  same for the request built from the decoded signature, and it panics exactly when
  remote mining is enabled and \<open>hexutil.MustDecode\<close> rejects the signature string.
\<close>

lemma submission_verdicts:
  "SubmitWork api n h d \<noteq> Panics \<and>
   (SubmitWork api n h d = Returns True \<longleftrightarrow>
      sealerReports api (workRequest n h d) = Some None) \<and>
   (\<forall>e. sealerReports api (workRequest n h d) = Some (Some e) \<longrightarrow>
      SubmitWork api n h d = Returns False) \<and>
   (SubmitWorkBLS MustDecode blsLen api n h s = Panics \<longleftrightarrow>
      remote (ethash api) \<noteq> None \<and> MustDecode s = None) \<and>
   (SubmitWorkBLS MustDecode blsLen api n h s = Returns True \<longleftrightarrow>
      (\<exists>signatureBytes. MustDecode s = Some signatureBytes \<and>
         sealerReports api (blsRequest blsLen n h signatureBytes) = Some None)) \<and>
   (\<forall>signatureBytes e. MustDecode s = Some signatureBytes \<and>
      sealerReports api (blsRequest blsLen n h signatureBytes) = Some (Some e) \<longrightarrow>
      SubmitWorkBLS MustDecode blsLen api n h s = Returns False)"
proof (intro conjI allI impI)
  show "SubmitWork api n h d \<noteq> Panics"
    by (simp add: SubmitWork_cases split: option.split)
  show "SubmitWork api n h d = Returns True \<longleftrightarrow>
      sealerReports api (workRequest n h d) = Some None"
    by (simp add: SubmitWork_cases split: option.split)
  show "SubmitWork api n h d = Returns False"
    if "sealerReports api (workRequest n h d) = Some (Some e)" for e
    using that by (simp add: SubmitWork_cases)
  show "SubmitWorkBLS MustDecode blsLen api n h s = Panics \<longleftrightarrow>
      remote (ethash api) \<noteq> None \<and> MustDecode s = None"
    by (simp add: SubmitWorkBLS_cases split: option.split)
  show "SubmitWorkBLS MustDecode blsLen api n h s = Returns True \<longleftrightarrow>
      (\<exists>signatureBytes. MustDecode s = Some signatureBytes \<and>
         sealerReports api (blsRequest blsLen n h signatureBytes) = Some None)"
    by (auto simp: SubmitWorkBLS_cases sealerReports_def split: option.split)
  show "SubmitWorkBLS MustDecode blsLen api n h s = Returns False"
    if "MustDecode s = Some signatureBytes \<and>
      sealerReports api (blsRequest blsLen n h signatureBytes) = Some (Some e)"
    for signatureBytes e
    using that
    by (auto simp: SubmitWorkBLS_cases sealerReports_def split: option.split if_splits)
qed

text \<open>A loop that accepts the seal gives true, one that reports an error gives false,
  for both methods; the signature string \<open>0x0102\<close> decodes to two bytes.\<close>

lemma submission_verdicts_examples:
  "sealerReports (apiOf servingSealer) (workRequest 0 (replicate 32 4) (replicate 32 5))
     = Some None \<and>
   SubmitWork (apiOf servingSealer) 0 (replicate 32 4) (replicate 32 5) = Returns True \<and>
   sealerReports (apiOf refusingSealer) (workRequest 0 (replicate 32 4) (replicate 32 5))
     = Some (Some (ErrorsNew ''invalid seal'')) \<and>
   SubmitWork (apiOf refusingSealer) 0 (replicate 32 4) (replicate 32 5) = Returns False \<and>
   hexutilMustDecode ''0x0102'' = Some [1, 2] \<and>
   sealerReports (apiOf servingSealer) (blsRequest 96 0 (replicate 32 4) [1, 2]) = Some None \<and>
   SubmitWorkBLS hexutilMustDecode 96 (apiOf servingSealer) 0 (replicate 32 4) ''0x0102''
     = Returns True \<and>
   sealerReports (apiOf refusingSealer) (blsRequest 96 0 (replicate 32 4) [1, 2])
     = Some (Some (ErrorsNew ''invalid seal'')) \<and>
   SubmitWorkBLS hexutilMustDecode 96 (apiOf refusingSealer) 0 (replicate 32 4) ''0x0102''
     = Returns False"
proof -
  have dec: "hexutilMustDecode ''0x0102'' = Some [1, 2]"
    by (simp add: hexutilMustDecode_def has0xPrefix_def fromHexChar_def)
  have ok: "sealerReports (apiOf servingSealer) req = Some None" for req
    by (simp add: sealerReports_def apiOf_def servingSealer_def)
  have bad: "sealerReports (apiOf refusingSealer) req = Some (Some (ErrorsNew ''invalid seal''))"
    for req
    by (simp add: sealerReports_def apiOf_def refusingSealer_def servingSealer_def)
  show ?thesis
    using dec ok bad
      submission_verdicts
        [of "apiOf servingSealer" 0 "replicate 32 4" "replicate 32 5" hexutilMustDecode 96
            "''0x0102''"]
      submission_verdicts
        [of "apiOf refusingSealer" 0 "replicate 32 4" "replicate 32 5" hexutilMustDecode 96
            "''0x0102''"]
    by simp
qed

text \<open>
  C1.  Every seal submission should end in a boolean, false for an invalid one.  The
  code does not do so for \<open>SubmitWorkBLS\<close> with the signature string \<open>zz\<close>: remote
  mining is enabled and the loop would answer, but \<open>hexutil.MustDecode\<close> rejects the
  string and the call ends in a panic before anything is sent.
\<close>

theorem SubmitWorkBLS_panics_on_malformed_hex:
  "remote (ethash (apiOf servingSealer)) = Some servingSealer \<and>
   hexutilMustDecode ''zz'' = None \<and>
   SubmitWorkBLS hexutilMustDecode 96 (apiOf servingSealer) 0 (replicate 32 4) ''zz'' = Panics"
  by (simp add: SubmitWorkBLS_def apiOf_def hexutilMustDecode_def has0xPrefix_def)

subsection \<open>Submitting a hash rate\<close>

text \<open>
  C5 (as amended).  \<open>SubmitHashRate\<close> returns true only when the sealer loop has taken
  the rate and acknowledged it.  Only the wait for the request to be taken races
  against shutdown, and when \<open>exitCh\<close> wins it the call returns false.  After the
  request is taken the call waits for the acknowledgement alone: its outcome does not
  depend on whether \<open>exitCh\<close> is closed during that wait.
\<close>

theorem SubmitHashRate_waits:
  "(remote (ethash api) = None \<longrightarrow> SubmitHashRate api rt i = Returns False) \<and>
   (\<forall>r. remote (ethash api) = Some r \<longrightarrow>
      (enqueue r = ExitCase \<longrightarrow> SubmitHashRate api rt i = Returns False) \<and>
      (enqueue r = SendCase \<longrightarrow>
         SubmitHashRate api rt i
           = (if rateDone r \<lparr>id' = i, rate = rt\<rparr> then Returns True else Blocks))) \<and>
   (SubmitHashRate api rt i = Returns True \<longleftrightarrow>
      (\<exists>r. remote (ethash api) = Some r \<and> enqueue r = SendCase \<and>
           rateDone r \<lparr>id' = i, rate = rt\<rparr>)) \<and>
   SubmitHashRate (apiOf (s\<lparr>exitWhileWaiting := b\<rparr>)) rt i = SubmitHashRate (apiOf s) rt i"
  by (simp add: SubmitHashRate_def apiOf_def split: option.split select_case.split)

theorem SubmitHashRate_waits_witness:
  "SubmitHashRate apiDisabled 5 (replicate 32 3) = Returns False \<and>
   SubmitHashRate (apiOf stoppedSealer) 5 (replicate 32 3) = Returns False \<and>
   SubmitHashRate (apiOf servingSealer) 5 (replicate 32 3) = Returns True \<and>
   SubmitHashRate (apiOf (servingSealer\<lparr>exitWhileWaiting := True\<rparr>)) 5 (replicate 32 3)
     = Returns True"
  using SubmitHashRate_waits [of apiDisabled 5 "replicate 32 3"]
    SubmitHashRate_waits [of "apiOf stoppedSealer" 5 "replicate 32 3"]
    SubmitHashRate_waits [of "apiOf servingSealer" 5 "replicate 32 3" True servingSealer]
  by (simp add: apiDisabled_def apiOf_def stoppedSealer_def servingSealer_def)

text \<open>
  C5 as stated fails: the loop has taken the rate, \<open>exitCh\<close> is closed while the call
  waits for the acknowledgement, no acknowledgement comes, and the call blocks for
  ever instead of failing.
\<close>

theorem SubmitHashRate_blocks_after_shutdown:
  "remote (ethash (apiOf silentSealer)) = Some silentSealer \<and>
   enqueue silentSealer = SendCase \<and>
   exitWhileWaiting silentSealer = True \<and>
   SubmitHashRate (apiOf silentSealer) 5 (replicate 32 3) = Blocks"
  by (simp add: SubmitHashRate_def apiOf_def silentSealer_def servingSealer_def)


section \<open>Properties of epoch start times and seal verification\<close>

subsection \<open>Epoch start times\<close>






subsection \<open>The invalid-signature failure\<close>

text \<open>
  C8 (as amended).  When the extension decodes, the turn is in range and the epoch is
  resolved, and the BLS check rejects the embedded signature for the expected signer's
  key and the seal-hash, \<open>verifySeal\<close> fails with the invalid-signature error, whose
  message is made of the printed signature, the header hash and the seal-hash.  This
  is so for a header sealed by a key other than the expected validator's, for any
  signature scheme in which a signature verifies under its signer's public key only.
\<close>

theorem verifySeal_invalid_signature:
  assumes "decodeSeal c (Extra hdr) = Some seal"
    and "turn seal < N"
    and "resolveEpoch c (Time hdr) = Some info"
    and "turn seal < length (ValidatorsList info)"
  shows "(\<not> blsVerify c (ValidatorsList info ! turn seal) (sealHash c hdr) (signature seal) \<longrightarrow>
            verifySeal c N hdr
              = Inl (InvalidSignature
                      (invalidSignatureMessage (marshalString c (signature seal))
                         (hashString c (headerHash c hdr)) (hashString c (sealHash c hdr))))) \<and>
         ((\<forall>pk message key. blsVerify c pk message (sign key message) \<longrightarrow> pk = publicKey key) \<and>
          signature seal = sign sealingKey (sealHash c hdr) \<and>
          publicKey sealingKey \<noteq> ValidatorsList info ! turn seal \<longrightarrow>
            verifySeal c N hdr
              = Inl (InvalidSignature
                      (invalidSignatureMessage (marshalString c (signature seal))
                         (hashString c (headerHash c hdr)) (hashString c (sealHash c hdr)))))"
proof -
  have fails: "verifySeal c N hdr
      = Inl (InvalidSignature
              (invalidSignatureMessage (marshalString c (signature seal))
                 (hashString c (headerHash c hdr)) (hashString c (sealHash c hdr))))"
    if "\<not> blsVerify c (ValidatorsList info ! turn seal) (sealHash c hdr) (signature seal)"
    using assms that by (simp add: verifySeal_def Let_def)
  show ?thesis
    using fails by metis
qed

text \<open>The validators are 7 and 8, the header is sealed with key 9 for turn 0.\<close>

theorem verifySeal_invalid_signature_witness:
  "decodeSeal (sampleCollaborators [7, 8]) (Extra sealedBy9)
     = Some \<lparr>slot = 0, epoch = 0, turn = 0, signature = sampleSign 9 [1, 2]\<rparr> \<and>
   sealHash (sampleCollaborators [7, 8]) sealedBy9 = [1, 2] \<and>
   samplePublicKey 9 \<noteq> [7, 8 :: byte] ! 0 \<and>
   verifySeal (sampleCollaborators [7, 8]) 2 sealedBy9
     = Inl (InvalidSignature
         ''invalid signature: 0x090102 in header hash: 0x0201 with sealHash: 0x0102'')"
proof -
  let ?c = "sampleCollaborators [7, 8]"
  let ?seal = "\<lparr>slot = 0, epoch = 0, turn = 0, signature = sampleSign 9 [1, 2]\<rparr>"
  let ?info = "\<lparr>Epoch = 0, ValidatorsList = [7, 8 :: byte], EpochTimeStart = 0,
                SlotTimeDuration = 6\<rparr>"
  have a: "decodeSeal ?c (Extra sealedBy9) = Some ?seal"
    by (simp add: sampleCollaborators_def sealedBy9_def sampleSign_def)
  have b: "turn ?seal < 2"
    by simp
  have c: "resolveEpoch ?c (Time sealedBy9) = Some ?info"
    by (simp add: sampleCollaborators_def)
  have d: "turn ?seal < length (ValidatorsList ?info)"
    by simp
  have sound: "\<forall>pk message key. blsVerify ?c pk message (sampleSign key message)
      \<longrightarrow> pk = samplePublicKey key"
    by (simp add: sampleCollaborators_def sampleSign_def samplePublicKey_def)
  have sh: "sealHash ?c sealedBy9 = [1, 2]"
    by (simp add: sampleCollaborators_def sealedBy9_def)
  have other: "samplePublicKey 9 \<noteq> [7, 8 :: byte] ! 0"
    by (simp add: samplePublicKey_def)
  have msg: "invalidSignatureMessage (marshalString ?c (signature ?seal))
       (hashString ?c (headerHash ?c sealedBy9)) (hashString ?c (sealHash ?c sealedBy9))
     = ''invalid signature: 0x090102 in header hash: 0x0201 with sealHash: 0x0102''"
    by (simp add: invalidSignatureMessage_def sampleCollaborators_def sealedBy9_def
          sampleSign_def hexString_def)
  from verifySeal_invalid_signature [OF a b c d, of sampleSign samplePublicKey 9]
  have "verifySeal ?c 2 sealedBy9
      = Inl (InvalidSignature
              (invalidSignatureMessage (marshalString ?c (signature ?seal))
                 (hashString ?c (headerHash ?c sealedBy9))
                 (hashString ?c (sealHash ?c sealedBy9))))"
    using sound sh other by simp
  then show ?thesis
    using a sh other msg by simp
qed

text \<open>
  C8 as stated fails in one respect: the message does not carry the identity of the
  expected signer.  For the same sealed header, a store whose validator is 7 and a
  store whose validator is 8 give the same error, word for word.
\<close>

theorem verifySeal_message_without_signer:
  "verifySeal (sampleCollaborators [7]) 1 sealedBy9
     = Inl (InvalidSignature
         ''invalid signature: 0x090102 in header hash: 0x0201 with sealHash: 0x0102'') \<and>
   verifySeal (sampleCollaborators [8]) 1 sealedBy9
     = Inl (InvalidSignature
         ''invalid signature: 0x090102 in header hash: 0x0201 with sealHash: 0x0102'') \<and>
   ValidatorsList (the (resolveEpoch (sampleCollaborators [7]) (Time sealedBy9))) ! 0 = 7 \<and>
   ValidatorsList (the (resolveEpoch (sampleCollaborators [8]) (Time sealedBy9))) ! 0 = 8 \<and>
   (7 :: byte) \<noteq> 8"
  by (simp add: verifySeal_def sampleCollaborators_def sealedBy9_def Let_def
        invalidSignatureMessage_def hexString_def)

end
